theory Spec2Isabelle
  imports Complex_Main
begin

section \<open>shell-calc: the expression evaluator of calc.c\<close>

text \<open>
  The development embeds \<^verbatim>\<open>evaluate\<close> of calc.c (lines 471-868) with the helpers it
  calls (\<^verbatim>\<open>isNumeric\<close>, \<^verbatim>\<open>isOper\<close>, \<^verbatim>\<open>isAlpha\<close>, \<^verbatim>\<open>getConst\<close>, \<^verbatim>\<open>doFunc\<close>).

  A C string is modelled by the list of its characters before the terminating NUL.
  The global \<^verbatim>\<open>errorFlag\<close> is modelled by the result type: \<open>Inl e\<close> stands for
  "errorFlag set, 0.0 returned" (or, for the two fatal conditions, for the call of
  \<^verbatim>\<open>cleanExit(true)\<close>), \<open>Inr v\<close> for a return of \<open>v\<close> with the flag clear.
\<close>

subsection \<open>Values of type double\<close>

text \<open>
  A finite double is modelled by the real number it denotes and the arithmetic on finite
  values is exact: rounding, overflow to infinity and the sign of zero are outside the
  model. The infinities and NaN are values of their own, so that a division by zero is
  not silently the number that HOL's total division returns.
\<close>

datatype double = Fin real | PInf | NInf | NaN

fun dneg :: "double \<Rightarrow> double" where
  "dneg (Fin x) = Fin (- x)"
| "dneg PInf = NInf"
| "dneg NInf = PInf"
| "dneg NaN = NaN"

fun dadd :: "double \<Rightarrow> double \<Rightarrow> double" where
  "dadd (Fin x) (Fin y) = Fin (x + y)"
| "dadd NaN _ = NaN"
| "dadd _ NaN = NaN"
| "dadd PInf NInf = NaN"
| "dadd NInf PInf = NaN"
| "dadd PInf _ = PInf"
| "dadd NInf _ = NInf"
| "dadd _ PInf = PInf"
| "dadd _ NInf = NInf"

definition dsub :: "double \<Rightarrow> double \<Rightarrow> double" where
  "dsub a b = dadd a (dneg b)"

text \<open>The sign of an infinite product or quotient: positive when the signs agree.\<close>

definition inf_of_sign :: "bool \<Rightarrow> double" where
  "inf_of_sign positive = (if positive then PInf else NInf)"

fun dmul :: "double \<Rightarrow> double \<Rightarrow> double" where
  "dmul (Fin x) (Fin y) = Fin (x * y)"
| "dmul NaN _ = NaN"
| "dmul _ NaN = NaN"
| "dmul (Fin x) PInf = (if x = 0 then NaN else inf_of_sign (0 < x))"
| "dmul (Fin x) NInf = (if x = 0 then NaN else inf_of_sign (x < 0))"
| "dmul PInf (Fin y) = (if y = 0 then NaN else inf_of_sign (0 < y))"
| "dmul NInf (Fin y) = (if y = 0 then NaN else inf_of_sign (y < 0))"
| "dmul PInf PInf = PInf"
| "dmul PInf NInf = NInf"
| "dmul NInf PInf = NInf"
| "dmul NInf NInf = PInf"

fun ddiv :: "double \<Rightarrow> double \<Rightarrow> double" where
  "ddiv (Fin x) (Fin y) =
     (if y = 0 then (if x = 0 then NaN else inf_of_sign (0 < x)) else Fin (x / y))"
| "ddiv NaN _ = NaN"
| "ddiv _ NaN = NaN"
| "ddiv (Fin x) PInf = Fin 0"
| "ddiv (Fin x) NInf = Fin 0"
| "ddiv PInf (Fin y) = inf_of_sign (0 \<le> y)"
| "ddiv NInf (Fin y) = inf_of_sign (y < 0)"
| "ddiv PInf PInf = NaN"
| "ddiv PInf NInf = NaN"
| "ddiv NInf PInf = NaN"
| "ddiv NInf NInf = NaN"

text \<open>\<^verbatim>\<open>fmod(x, y)\<close>: \<open>x - n * y\<close> where \<open>n\<close> is \<open>x / y\<close> truncated towards zero.\<close>

definition trunc :: "real \<Rightarrow> int" where
  "trunc r = (if 0 \<le> r then \<lfloor>r\<rfloor> else \<lceil>r\<rceil>)"

fun dfmod :: "double \<Rightarrow> double \<Rightarrow> double" where
  "dfmod (Fin x) (Fin y) = (if y = 0 then NaN else Fin (x - of_int (trunc (x / y)) * y))"
| "dfmod NaN _ = NaN"
| "dfmod _ NaN = NaN"
| "dfmod PInf _ = NaN"
| "dfmod NInf _ = NaN"
| "dfmod (Fin x) PInf = Fin x"
| "dfmod (Fin x) NInf = Fin x"

text \<open>
  \<^verbatim>\<open>pow(x, y)\<close> with the special cases of C99 Annex F.9.4.4, as far as they can be
  told apart without a signed zero.
\<close>

definition is_integer :: "real \<Rightarrow> bool" where
  "is_integer y = (of_int \<lfloor>y\<rfloor> = y)"

definition is_odd_integer :: "real \<Rightarrow> bool" where
  "is_odd_integer y = (is_integer y \<and> odd \<lfloor>y\<rfloor>)"

fun dpow :: "double \<Rightarrow> double \<Rightarrow> double" where
  "dpow (Fin x) (Fin y) =
     (if y = 0 \<or> x = 1 then Fin 1
      else if x = 0 then (if y < 0 then PInf else Fin 0)
      else if is_integer y then Fin (x powi \<lfloor>y\<rfloor>)
      else if 0 < x then Fin (x powr y)
      else NaN)"
| "dpow NaN (Fin y) = (if y = 0 then Fin 1 else NaN)"
| "dpow NaN _ = NaN"
| "dpow (Fin x) NaN = (if x = 1 then Fin 1 else NaN)"
| "dpow _ NaN = NaN"
| "dpow (Fin x) PInf =
     (if \<bar>x\<bar> = 1 then Fin 1 else if \<bar>x\<bar> < 1 then Fin 0 else PInf)"
| "dpow (Fin x) NInf =
     (if \<bar>x\<bar> = 1 then Fin 1 else if \<bar>x\<bar> < 1 then PInf else Fin 0)"
| "dpow PInf (Fin y) = (if y = 0 then Fin 1 else if y < 0 then Fin 0 else PInf)"
| "dpow NInf (Fin y) =
     (if y = 0 then Fin 1 else if y < 0 then Fin 0
      else if is_odd_integer y then NInf else PInf)"
| "dpow PInf PInf = PInf"
| "dpow NInf PInf = PInf"
| "dpow PInf NInf = Fin 0"
| "dpow NInf NInf = Fin 0"

fun dsin :: "double \<Rightarrow> double" where
  "dsin (Fin x) = Fin (sin x)"
| "dsin _ = NaN"

fun dcos :: "double \<Rightarrow> double" where
  "dcos (Fin x) = Fin (cos x)"
| "dcos _ = NaN"

fun dsqrt :: "double \<Rightarrow> double" where
  "dsqrt (Fin x) = (if x < 0 then NaN else Fin (sqrt x))"
| "dsqrt PInf = PInf"
| "dsqrt _ = NaN"

subsection \<open>The C library's number parsers\<close>

definition isspace :: "char \<Rightarrow> bool" where
  "isspace c = (of_char c \<in> {32, 9, 10, 11, 12, 13 :: nat})"

text \<open>The value of a character as a digit, for bases up to 36.\<close>

definition digit_val :: "char \<Rightarrow> nat option" where
  "digit_val c =
     (let n = (of_char c :: nat) in
      if 48 \<le> n \<and> n \<le> 57 then Some (n - 48)
      else if 97 \<le> n \<and> n \<le> 122 then Some (n - 87)
      else if 65 \<le> n \<and> n \<le> 90 then Some (n - 55)
      else None)"

definition is_digit :: "nat \<Rightarrow> char \<Rightarrow> bool" where
  "is_digit b c = (case digit_val c of Some d \<Rightarrow> d < b | None \<Rightarrow> False)"

text \<open>
  Reads the longest run of digits of base \<open>b\<close>: the number read so far, how many
  digits were read, and the rest of the string.
\<close>

fun read_digits :: "nat \<Rightarrow> nat \<Rightarrow> nat \<Rightarrow> string \<Rightarrow> nat \<times> nat \<times> string" where
  "read_digits b acc k [] = (acc, k, [])"
| "read_digits b acc k (c # cs) =
     (if is_digit b c then read_digits b (acc * b + the (digit_val c)) (Suc k) cs
      else (acc, k, c # cs))"

text \<open>An optional sign: whether it is a minus, and the rest of the string.\<close>

fun read_sign :: "string \<Rightarrow> bool \<times> string" where
  "read_sign [] = (False, [])"
| "read_sign (c # cs) =
     (if c = CHR ''-'' then (True, cs)
      else if c = CHR ''+'' then (False, cs)
      else (False, c # cs))"

definition LLONG_MAX :: int where
  "LLONG_MAX = 9223372036854775807"

definition LLONG_MIN :: int where
  "LLONG_MIN = - 9223372036854775808"

text \<open>Whether the string starts with the prefix of a hexadecimal number.\<close>

fun hex_prefix :: "string \<Rightarrow> bool" where
  "hex_prefix (z # x # h # _) =
     (z = CHR ''0'' \<and> (x = CHR ''x'' \<or> x = CHR ''X'') \<and> is_digit 16 h)"
| "hex_prefix _ = False"

text \<open>
  \<^verbatim>\<open>strtoll(s, &end, 0)\<close> of C99: white space, an optional sign, then a hexadecimal
  number after \<^verbatim>\<open>0x\<close>, an octal one after \<^verbatim>\<open>0\<close>, or a decimal one. The result is
  the value, clamped to the range of \<^verbatim>\<open>long long\<close>, and the rest of the string; when
  no digit can be read the value is 0 and the rest is the whole string.
\<close>

definition strtoll :: "string \<Rightarrow> int \<times> string" where
  "strtoll s =
     (let (neg, s2) = read_sign (dropWhile isspace s);
          (b, s3) = (if hex_prefix s2 then (16, drop 2 s2)
                     else if s2 \<noteq> [] \<and> hd s2 = CHR ''0'' then (8, s2)
                     else (10, s2));
          (n, k, rest) = read_digits b 0 0 s3
      in if k = 0 then (0, s)
         else if neg then (max LLONG_MIN (- int n), rest)
         else (min LLONG_MAX (int n), rest))"

text \<open>
  The exponent part of a floating literal, after its marker: an optional sign and at
  least one decimal digit; None when no digit follows.
\<close>

definition read_exponent :: "string \<Rightarrow> (int \<times> string) option" where
  "read_exponent s =
     (let (neg, s2) = read_sign s; (n, k, rest) = read_digits 10 0 0 s2
      in if k = 0 then None else Some (if neg then - int n else int n, rest))"

text \<open>
  The digits of a mantissa in base \<open>b\<close>, with an optional radix point: its value,
  the number of digits read, and the rest.
\<close>

definition read_mantissa :: "nat \<Rightarrow> string \<Rightarrow> real \<times> nat \<times> string" where
  "read_mantissa b s =
     (let (ip, k1, r1) = read_digits b 0 0 s
      in if r1 \<noteq> [] \<and> hd r1 = CHR ''.''
         then (let (fp, k2, r2) = read_digits b 0 0 (tl r1)
               in if k1 + k2 = 0 then (0, 0, s)
                  else (real ip + real fp / real (b ^ k2), k1 + k2, r2))
         else (real ip, k1, r1))"

definition lower :: "char \<Rightarrow> char" where
  "lower c = (let n = (of_char c :: nat) in if 65 \<le> n \<and> n \<le> 90 then char_of (n + 32) else c)"

text \<open>The mantissa \<open>m\<close> scaled by the exponent that follows the marker \<open>mk\<close>, if any.\<close>

definition scale_exponent :: "real \<Rightarrow> real \<Rightarrow> char \<Rightarrow> string \<Rightarrow> real \<times> string" where
  "scale_exponent radix m mk r =
     (if r \<noteq> [] \<and> lower (hd r) = mk
      then (case read_exponent (tl r) of
              None \<Rightarrow> (m, r)
            | Some (e, r') \<Rightarrow> (m * radix powi e, r'))
      else (m, r))"

text \<open>
  \<^verbatim>\<open>strtod(s, &end)\<close> of C99 in the C locale: white space, an optional sign, then
  \<^verbatim>\<open>inf\<close>, \<^verbatim>\<open>infinity\<close> or \<^verbatim>\<open>nan\<close>, a hexadecimal floating number after \<^verbatim>\<open>0x\<close>, or a
  decimal one. The result is the value and the rest of the string; when nothing can be
  read the value is 0 and the rest is the whole string.
\<close>

definition strtod :: "string \<Rightarrow> double \<times> string" where
  "strtod s =
     (let (neg, s2) = read_sign (dropWhile isspace s);
          sg = (\<lambda>v. if neg then dneg v else v)
      in if map lower (take 8 s2) = ''infinity'' then (sg PInf, drop 8 s2)
         else if map lower (take 3 s2) = ''inf'' then (sg PInf, drop 3 s2)
         else if map lower (take 3 s2) = ''nan'' then (NaN, drop 3 s2)
         else if map lower (take 2 s2) = ''0x'' \<and> fst (snd (read_mantissa 16 (drop 2 s2))) \<noteq> 0
         then (let (m, k, r) = read_mantissa 16 (drop 2 s2);
                   (v, r') = scale_exponent 2 m (CHR ''p'') r
               in (sg (Fin v), r'))
         else (let (m, k, r) = read_mantissa 10 s2
               in if k = 0 then (Fin 0, s)
                  else (let (v, r') = scale_exponent 10 m (CHR ''e'') r
                        in (sg (Fin v), r'))))"

subsection \<open>Character classes and the tables of constants and functions\<close>

definition isNumeric :: "char \<Rightarrow> bool" where
  "isNumeric c = (c \<in> set ''0123456789xX-.'')"

definition isOper :: "char \<Rightarrow> bool" where
  "isOper c = (c \<in> set ''+-*/^%'')"

definition isAlpha :: "char \<Rightarrow> bool" where
  "isAlpha c = (c \<in> set ''abcdefghijklmnopqrstuvwxyz'')"

definition getConst :: "string \<Rightarrow> double" where
  "getConst varStr =
     (if varStr = ''pi'' then Fin 3.1415926535897932384626433
      else if varStr = ''e'' then Fin 2.7182818284590452353602874
      else Fin 0)"

text \<open>
  The outcomes of \<^verbatim>\<open>evaluate\<close> other than a value. The first two are the fatal
  exits through \<^verbatim>\<open>cleanExit(true)\<close>; the others up to \<open>NonOperator\<close> are the places
  that set \<^verbatim>\<open>errorFlag\<close> and return 0.0, in the order of the source.
  \<open>UndefinedBehaviour\<close> marks the executions that leave the defined behaviour of C: a
  write past the end of one of the fixed buffers, or a buffer used as a string without
  its terminator.
\<close>

datatype error =
    RecursionLimitExceeded
  | TokenizerRunaway
  | EmptyExpression
  | TokenCapacityExceeded
  | UnterminatedGroup
  | UnknownFunction
  | UnknownIdentifier
  | ExpectedOperator
  | NoTokenProduced
  | OperatorWithoutToken
  | InvalidOperator
  | NonOperator
  | UndefinedBehaviour

definition doFunc :: "string \<Rightarrow> double \<Rightarrow> error + double" where
  "doFunc funcStr arg =
     (if funcStr = ''sin'' then Inr (dsin arg)
      else if funcStr = ''cos'' then Inr (dcos arg)
      else if funcStr = ''sqrt'' then Inr (dsqrt arg)
      else Inl UnknownFunction)"

subsection \<open>The tokenizing pass\<close>

text \<open>
  The state of the tokenizing loop. \<open>ptr\<close> is the text from the scan position to the
  end of the expression, so that \<^verbatim>\<open>ptr < exprEnd\<close> is \<open>ptr st \<noteq> []\<close>. The arrays
  \<^verbatim>\<open>tokens[50]\<close> and \<^verbatim>\<open>operators[50]\<close> are maps from indices to values; every write
  checks the index against the capacity.
\<close>

record tok_state =
  ptr :: string
  tokens :: "nat \<Rightarrow> double"
  operators :: "nat \<Rightarrow> char"
  numTokens :: nat

text \<open>\<^verbatim>\<open>*p\<close>: the character at the position, the terminating NUL at the end.\<close>

definition peek :: "string \<Rightarrow> char" where
  "peek s = (case s of [] \<Rightarrow> CHR 0x00 | c # _ \<Rightarrow> c)"

text \<open>\<^verbatim>\<open>tokens[numTokens++] = v\<close>\<close>

definition push_token :: "double \<Rightarrow> tok_state \<Rightarrow> error + tok_state" where
  "push_token v st =
     (if numTokens st < 50
      then Inr (st\<lparr>tokens := (tokens st)(numTokens st := v), numTokens := numTokens st + 1\<rparr>)
      else Inl UndefinedBehaviour)"

text \<open>
  Lines 548-555: the scan for the parenthesis that closes a function's argument. The
  result is the level reached, the argument collected and the position after the scan.
\<close>

fun scan_arg :: "nat \<Rightarrow> string \<Rightarrow> string \<Rightarrow> nat \<times> string \<times> string" where
  "scan_arg pLvl funcArg [] = (pLvl, funcArg, [])"
| "scan_arg pLvl funcArg (c # tmp) =
     (if pLvl > 0
      then (let p1 = (if c = CHR ''('' then pLvl + 1 else pLvl);
                p2 = (if c = CHR '')'' then p1 - 1 else p1)
            in scan_arg p2 (if p2 \<noteq> 0 then funcArg @ [c] else funcArg) tmp)
      else (pLvl, funcArg, c # tmp))"

text \<open>
  Lines 619-628 and 643-648: the scan for the parenthesis that closes a subexpression.
  The result is the level reached, the text passed over (what the source then copies
  into \<^verbatim>\<open>subExpr\<close>) and the position where the scan stopped: at the closing
  parenthesis, or at the end.
\<close>

fun scan_group :: "nat \<Rightarrow> string \<Rightarrow> string \<Rightarrow> nat \<times> string \<times> string" where
  "scan_group pLvl subExpr [] = (pLvl, subExpr, [])"
| "scan_group pLvl subExpr (c # tmp) =
     (if pLvl > 0
      then (let p1 = (if c = CHR ''('' then pLvl + 1 else pLvl);
                p2 = (if c = CHR '')'' then p1 - 1 else p1)
            in if p2 = 0 then (p2, subExpr, c # tmp)
               else scan_group p2 (subExpr @ [c]) tmp)
      else (pLvl, subExpr, c # tmp))"

text \<open>
  Lines 528-611: a name, which is a function call when a parenthesis follows and a
  constant otherwise. \<open>ev\<close> is the recursive call \<^verbatim>\<open>evaluate(_, depth + 1)\<close>. The
  boolean of the result says whether the iteration ends here (\<^verbatim>\<open>continue\<close>).
  \<^verbatim>\<open>vfStr\<close> has 256 bytes and \<^verbatim>\<open>funcArg\<close> 1024.
\<close>

definition name_branch ::
  "(string \<Rightarrow> error + double) \<Rightarrow> tok_state \<Rightarrow> error + tok_state \<times> bool" where
  "name_branch ev st =
     (let vfStr = takeWhile isAlpha (ptr st); tmp = dropWhile isAlpha (ptr st)
      in if length vfStr > 256 then Inl UndefinedBehaviour
         else
          (case
             (if peek tmp = CHR ''(''
              then (let (pLvl, funcArg, tmp') = scan_arg 1 [] (tl tmp)
                    in if length funcArg > 1024 then Inl UndefinedBehaviour
                       else if pLvl \<noteq> 0 then Inl UnterminatedGroup
                       else if length funcArg > 1023 then Inl UndefinedBehaviour
                       else (case ev funcArg of
                               Inl e \<Rightarrow> Inl e
                             | Inr argVal \<Rightarrow>
                                 if length vfStr > 255 then Inl UndefinedBehaviour
                                 else (case doFunc vfStr argVal of
                                         Inl e \<Rightarrow> Inl e
                                       | Inr v \<Rightarrow> push_token v (st\<lparr>ptr := tmp'\<rparr>))))
              else if length vfStr > 255 then Inl UndefinedBehaviour
              else (let constVal = getConst vfStr
                    in if constVal = Fin 0 then Inl UnknownIdentifier
                       else push_token constVal (st\<lparr>ptr := tmp\<rparr>)))
           of
             Inl e \<Rightarrow> Inl e
           | Inr st1 \<Rightarrow>
               if ptr st1 \<noteq> [] \<and> \<not> isOper (peek (ptr st1)) then Inl ExpectedOperator
               else Inr (st1, ptr st1 = [] \<or> peek (ptr st1) = CHR 0x00)))"

text \<open>Lines 614-662: a parenthesised subexpression; \<^verbatim>\<open>subExpr\<close> has 4096 bytes.\<close>

definition group_branch ::
  "(string \<Rightarrow> error + double) \<Rightarrow> tok_state \<Rightarrow> error + tok_state \<times> bool" where
  "group_branch ev st =
     (let (pLvl, subExpr, tmp) = scan_group 1 [] (tl (ptr st))
      in if pLvl \<noteq> 0 then Inl UnterminatedGroup
         else if length subExpr > 4095 then Inl UndefinedBehaviour
         else (case ev subExpr of
                 Inl e \<Rightarrow> Inl e
               | Inr v \<Rightarrow>
                   (case push_token v (st\<lparr>ptr := tl tmp\<rparr>) of
                      Inl e \<Rightarrow> Inl e
                    | Inr st1 \<Rightarrow> Inr (st1, ptr st1 = [] \<or> peek (ptr st1) = CHR 0x00))))"

text \<open>
  Lines 663-689: a number. The run of numeric characters only decides between
  \<^verbatim>\<open>strtod\<close> and \<^verbatim>\<open>strtoll\<close>; both parse from \<^verbatim>\<open>ptr\<close> and move it themselves. (The
  source also steps \<^verbatim>\<open>tmp\<close> back over a final minus sign, and never reads \<^verbatim>\<open>tmp\<close>
  again.)
\<close>

definition parse_number :: "string \<Rightarrow> double \<times> string" where
  "parse_number s =
     (let isFloat = (CHR ''.'' \<in> set (takeWhile isNumeric s))
      in if isFloat then strtod s
         else (let (t, rest) = strtoll s in (Fin (of_int t), rest)))"

definition number_branch :: "tok_state \<Rightarrow> error + tok_state" where
  "number_branch st = (let (t, rest) = parse_number (ptr st) in push_token t (st\<lparr>ptr := rest\<rparr>))"

text \<open>Lines 699-722: the operator that follows a token, if the text goes on.\<close>

definition oper_part :: "tok_state \<Rightarrow> error + tok_state" where
  "oper_part st =
     (if ptr st \<noteq> []
      then (if \<not> isOper (peek (ptr st)) then Inl ExpectedOperator
            else if numTokens st < 1 then Inl OperatorWithoutToken
            else if numTokens st - 1 < 50
            then Inr (st\<lparr>operators := (operators st)(numTokens st - 1 := peek (ptr st)),
                         ptr := tl (ptr st)\<rparr>)
            else Inl UndefinedBehaviour)
      else Inr st)"

text \<open>
  Lines 527-722: one iteration of the tokenizing loop, after its two guards. The name
  branch falls through to the other two when text is left; the subexpression and the
  number branch exclude each other.
\<close>

definition tok_body :: "(string \<Rightarrow> error + double) \<Rightarrow> tok_state \<Rightarrow> error + tok_state" where
  "tok_body ev st =
     (case (if isAlpha (peek (ptr st)) then name_branch ev st else Inr (st, False)) of
        Inl e \<Rightarrow> Inl e
      | Inr (st1, continue1) \<Rightarrow>
          if continue1 then Inr st1
          else
           (case
              (if ptr st1 \<noteq> [] \<and> peek (ptr st1) = CHR ''('' then group_branch ev st1
               else if ptr st1 \<noteq> [] \<and> isNumeric (peek (ptr st1))
               then (case number_branch st1 of
                       Inl e \<Rightarrow> Inl e
                     | Inr st2 \<Rightarrow> Inr (st2, False))
               else Inr (st1, False))
            of
              Inl e \<Rightarrow> Inl e
            | Inr (st2, continue2) \<Rightarrow>
                if continue2 then Inr st2
                else if numTokens st2 - numTokens st = 0 then Inl NoTokenProduced
                else oper_part st2))"

text \<open>Lines 503-723: the loop, with its counter and its two guards.\<close>

function tokenize ::
  "(string \<Rightarrow> error + double) \<Rightarrow> nat \<Rightarrow> tok_state \<Rightarrow> error + tok_state" where
  "tokenize ev loopCount st =
     (if ptr st \<noteq> []
      then (if loopCount + 1 > 10000 then Inl TokenizerRunaway
            else if numTokens st \<ge> 50 then Inl TokenCapacityExceeded
            else (case tok_body ev st of
                    Inl e \<Rightarrow> Inl e
                  | Inr st' \<Rightarrow> tokenize ev (loopCount + 1) st'))
      else Inr st)"
  by pat_completeness auto
termination
  by (relation "measure (\<lambda>(ev, loopCount, st). 10001 - loopCount)") auto

declare tokenize.simps [simp del]

subsection \<open>The reduction pass\<close>

text \<open>The \<^verbatim>\<open>switch\<close> of lines 773-855; None is its \<^verbatim>\<open>default\<close> case.\<close>

definition apply_oper :: "char \<Rightarrow> double \<Rightarrow> double \<Rightarrow> double option" where
  "apply_oper oper t1 t2 =
     (if oper = CHR ''^'' then Some (dpow t1 t2)
      else if oper = CHR ''*'' then Some (dmul t1 t2)
      else if oper = CHR ''/'' then Some (ddiv t1 t2)
      else if oper = CHR ''%'' then Some (dfmod t1 t2)
      else if oper = CHR ''+'' then Some (dadd t1 t2)
      else if oper = CHR ''-'' then Some (dsub t1 t2)
      else None)"

text \<open>\<^verbatim>\<open>for(j = from; j < to; j++) a[j] = a[j + 1];\<close>\<close>

function shift_left :: "nat \<Rightarrow> nat \<Rightarrow> (nat \<Rightarrow> 'a) \<Rightarrow> (nat \<Rightarrow> 'a)" where
  "shift_left j to a = (if j < to then shift_left (j + 1) to (a(j := a (j + 1))) else a)"
  by pat_completeness auto
termination
  by (relation "measure (\<lambda>(j, to, a). to - j)") auto

declare shift_left.simps [simp del]

text \<open>
  Lines 751-858: the scan of one phase, from index \<open>i\<close>. After a reduction the source
  decrements \<open>i\<close> and the loop header increments it again, in \<^verbatim>\<open>uint32_t\<close>: the scan
  goes on at the same index, also when that index is 0.
\<close>

function reduce_loop ::
  "nat \<Rightarrow> nat \<Rightarrow> (nat \<Rightarrow> double) \<Rightarrow> (nat \<Rightarrow> char) \<Rightarrow> nat
     \<Rightarrow> error + (nat \<Rightarrow> double) \<times> (nat \<Rightarrow> char) \<times> nat" where
  "reduce_loop evalPhase i toks ops n =
     (if i < n - 1
      then (let t1 = toks i; t2 = toks (i + 1); oper = ops i
            in if evalPhase = 0 \<and> oper \<noteq> CHR ''^''
               then reduce_loop evalPhase (i + 1) toks ops n
               else if evalPhase = 1 \<and> oper \<noteq> CHR ''*'' \<and> oper \<noteq> CHR ''/'' \<and> oper \<noteq> CHR ''%''
               then reduce_loop evalPhase (i + 1) toks ops n
               else if evalPhase = 2 \<and> oper \<noteq> CHR ''+'' \<and> oper \<noteq> CHR ''-''
               then Inl InvalidOperator
               else (case apply_oper oper t1 t2 of
                       None \<Rightarrow> Inl NonOperator
                     | Some r \<Rightarrow>
                         reduce_loop evalPhase i
                           (shift_left (i + 1) (n - 1) (toks(i := r)))
                           (shift_left i (n - 2) ops)
                           (n - 1)))
      else Inr (toks, ops, n))"
  by pat_completeness auto
termination
  by (relation "measure (\<lambda>(evalPhase, i, toks, ops, n). n - i)") auto

declare reduce_loop.simps [simp del]

text \<open>Lines 743-861: the three phases.\<close>

function reduce ::
  "nat \<Rightarrow> (nat \<Rightarrow> double) \<Rightarrow> (nat \<Rightarrow> char) \<Rightarrow> nat
     \<Rightarrow> error + (nat \<Rightarrow> double) \<times> (nat \<Rightarrow> char) \<times> nat" where
  "reduce evalPhase toks ops n =
     (if evalPhase < 3
      then (case reduce_loop evalPhase 0 toks ops n of
              Inl e \<Rightarrow> Inl e
            | Inr (toks', ops', n') \<Rightarrow> reduce (evalPhase + 1) toks' ops' n')
      else Inr (toks, ops, n))"
  by pat_completeness auto
termination
  by (relation "measure (\<lambda>(evalPhase, toks, ops, n). 3 - evalPhase)") auto

declare reduce.simps [simp del]

subsection \<open>evaluate\<close>

definition init_state :: "string \<Rightarrow> tok_state" where
  "init_state expr =
     \<lparr>ptr = expr, tokens = (\<lambda>i. Fin 0), operators = (\<lambda>i. CHR 0x00), numTokens = 0\<rparr>"

function evaluate :: "string \<Rightarrow> nat \<Rightarrow> error + double" where
  "evaluate expr depth =
     (if length expr < 1 then Inl EmptyExpression
      else if depth > 1000 then Inl RecursionLimitExceeded
      else (case tokenize (\<lambda>sub. evaluate sub (depth + 1)) 0 (init_state expr) of
              Inl e \<Rightarrow> Inl e
            | Inr st \<Rightarrow>
                (case reduce 0 (tokens st) (operators st) (numTokens st) of
                   Inl e \<Rightarrow> Inl e
                 | Inr (toks, ops, n) \<Rightarrow> Inr (toks 0))))"
  by pat_completeness auto
termination
  by (relation "measure (\<lambda>(expr, depth). 1001 - depth)") auto

declare evaluate.simps [simp del]

section \<open>Properties\<close>

subsection \<open>Evaluation on concrete expressions\<close>

text \<open>The equations that evaluate the model on a concrete expression.\<close>

lemmas ev_simps =
  evaluate.simps tokenize.simps tok_body_def name_branch_def group_branch_def
  number_branch_def parse_number_def oper_part_def push_token_def peek_def init_state_def
  isAlpha_def isNumeric_def isOper_def strtoll_def strtod_def read_mantissa_def
  scale_exponent_def read_exponent_def is_digit_def digit_val_def isspace_def lower_def
  LLONG_MAX_def LLONG_MIN_def reduce.simps reduce_loop.simps shift_left.simps apply_oper_def
  getConst_def doFunc_def dsub_def trunc_def is_integer_def power_int_def Let_def

text \<open>
  C2, as the code has it: \<^verbatim>\<open>evaluate("2^3^2")\<close> reduces the chained exponent from left to
  right, as \<open>(2^3)^2\<close>, and returns 64.
\<close>

theorem evaluate_chained_exponent:
  "evaluate ''2^3^2'' 0 = Inr (dpow (dpow (Fin 2) (Fin 3)) (Fin 2))
   \<and> dpow (dpow (Fin 2) (Fin 3)) (Fin 2) = Fin 64"
  by (simp add: ev_simps)

text \<open>C2 as stated fails: the value returned for \<^verbatim>\<open>2^3^2\<close> is not 512.\<close>

theorem evaluate_chained_exponent_not_512:
  "evaluate ''2^3^2'' 0 \<noteq> Inr (Fin 512)"
  by (simp add: ev_simps)

text \<open>
  C3: unary minus. \<^verbatim>\<open>5*-2\<close> is -10, \<^verbatim>\<open>5--2\<close> is 7 (the subtraction of -2), and
  \<^verbatim>\<open>-5^2\<close> is 25: the minus sign is part of the literal -5, which is then squared.
\<close>

theorem evaluate_unary_minus:
  "evaluate ''5*-2'' 0 = Inr (Fin (- 10))
   \<and> evaluate ''5--2'' 0 = Inr (Fin 7)
   \<and> evaluate ''-5^2'' 0 = Inr (Fin 25)"
  by (simp add: ev_simps)

text \<open>
  C4 at the input \<^verbatim>\<open>pi-2\<close>: the minus sign after the name is accepted as an operator,
  but it is also a numeric character, so the same iteration goes on into the number
  branch and reads -2 as a second token. No operator is stored between the two tokens
  and the last phase of the reduction rejects the NUL it finds there. With a plus sign
  the same expression evaluates.
\<close>

theorem evaluate_name_minus:
  "evaluate ''pi-2'' 0 = Inl InvalidOperator
   \<and> evaluate ''pi+2'' 0 = Inr (dadd (getConst ''pi'') (Fin 2))"
  by (simp add: ev_simps)

text \<open>
  C6: \<^verbatim>\<open>foo(1)\<close> fails with UnknownFunction, \<^verbatim>\<open>bar+1\<close> with UnknownIdentifier and
  \<^verbatim>\<open>sqrt(4\<close> with UnterminatedGroup; each is an error result, that is, the error flag
  set and 0.0 returned.
\<close>

theorem evaluate_error_taxonomy:
  "evaluate ''foo(1)'' 0 = Inl UnknownFunction
   \<and> evaluate ''bar+1'' 0 = Inl UnknownIdentifier
   \<and> evaluate ''sqrt(4'' 0 = Inl UnterminatedGroup"
  by (simp add: ev_simps)

end
